theory Spec2Isabelle
  imports Main "HOL-Library.AList" "HOL-Library.Sublist"
begin

section \<open>Decoded JSON values and the Python operations applied to them\<close>

text \<open>
  Both scripts work on the values that \<^verbatim>\<open>json.loads\<close> returns. A JSON object is a
  Python dict: its entries are kept in insertion order, so it is an association list
  (a dict never holds one key twice; lookups take the first entry). Numbers are the
  integers: the scripts never compute with a number, and a fraction would fare as an
  integer does in every operation below.
\<close>

datatype json =
    JNull
  | JBool bool
  | JInt int
  | JStr string
  | JArr "json list"
  | JObj "(string \<times> json) list"

text \<open>
  The exceptions the two scripts can meet. \<open>PyException\<close> is a plain
  \<^verbatim>\<open>raise Exception(msg)\<close>; the others are raised by the interpreter or the standard
  library. All of them derive from Python's \<^verbatim>\<open>Exception\<close>.
\<close>

datatype py_error =
    HTTPError nat
  | URLError string
  | JSONDecodeError
  | FileNotFoundError
  | PyException string
  | KeyError string
  | TypeError
  | AttributeError

type_synonym 'a res = "py_error + 'a"

text \<open>Truth value of a decoded value in a condition (\<^verbatim>\<open>if x:\<close>).\<close>

fun truthy :: "json \<Rightarrow> bool" where
  "truthy JNull = False"
| "truthy (JBool b) = b"
| "truthy (JInt i) = (i \<noteq> 0)"
| "truthy (JStr s) = (s \<noteq> [])"
| "truthy (JArr xs) = (xs \<noteq> [])"
| "truthy (JObj kvs) = (kvs \<noteq> [])"

text \<open>\<^verbatim>\<open>x.get(k, d)\<close>: only a dict has the method.\<close>

fun py_get :: "json \<Rightarrow> string \<Rightarrow> json \<Rightarrow> json res" where
  "py_get (JObj kvs) k d = Inr (case map_of kvs k of None \<Rightarrow> d | Some v \<Rightarrow> v)"
| "py_get _ k d = Inl AttributeError"

text \<open>\<^verbatim>\<open>x[k]\<close> with a string key: a missing key raises, and no other value can be
  indexed by a string.\<close>

fun py_getitem :: "json \<Rightarrow> string \<Rightarrow> json res" where
  "py_getitem (JObj kvs) k = (case map_of kvs k of None \<Rightarrow> Inl (KeyError k) | Some v \<Rightarrow> Inr v)"
| "py_getitem _ k = Inl TypeError"

text \<open>\<^verbatim>\<open>k in x\<close> with a string \<open>k\<close>: a key of a dict, an element of a list, a
  substring of a string; the other values are not containers.\<close>

fun py_contains :: "string \<Rightarrow> json \<Rightarrow> bool res" where
  "py_contains k (JObj kvs) = Inr (map_of kvs k \<noteq> None)"
| "py_contains k (JArr xs) = Inr (JStr k \<in> set xs)"
| "py_contains k (JStr s) = Inr (sublist k s)"
| "py_contains k _ = Inl TypeError"

text \<open>\<^verbatim>\<open>for v in x\<close>: the elements of a list, the keys of a dict, the characters of a
  string.\<close>

fun py_iter :: "json \<Rightarrow> json list res" where
  "py_iter (JArr xs) = Inr xs"
| "py_iter (JObj kvs) = Inr (map (\<lambda>kv. JStr (fst kv)) kvs)"
| "py_iter (JStr s) = Inr (map (\<lambda>c. JStr [c]) s)"
| "py_iter _ = Inl TypeError"

text \<open>\<^verbatim>\<open>x.items()\<close>.\<close>

fun py_items :: "json \<Rightarrow> (string \<times> json) list res" where
  "py_items (JObj kvs) = Inr kvs"
| "py_items _ = Inl AttributeError"

text \<open>\<^verbatim>\<open>set(x)\<close>: the elements must be hashable, which lists and dicts are not. The
  set is kept as the list of its elements and only asked for membership.\<close>

fun hashable :: "json \<Rightarrow> bool" where
  "hashable (JArr xs) = False"
| "hashable (JObj kvs) = False"
| "hashable _ = True"

definition py_set :: "json \<Rightarrow> json list res" where
  "py_set x =
     (case py_iter x of
        Inl e \<Rightarrow> Inl e
      | Inr xs \<Rightarrow> if list_all hashable xs then Inr xs else Inl TypeError)"

section \<open>refresh\_tool\_docs.py: schema conversion\<close>

text \<open>
  One pass of the loop body of \<^verbatim>\<open>convert_schema_to_yaml_params\<close>: the record built for
  the property \<open>name\<close>. The keys are assigned in the order type, desc, enum, default,
  required, each at most once.
\<close>

definition make_param :: "json list \<Rightarrow> string \<Rightarrow> json \<Rightarrow> json res" where
  "make_param required name prop =
     (case prop of
        JObj p \<Rightarrow>
          Inr (JObj
            ([(''type'', case map_of p ''type'' of None \<Rightarrow> JStr ''string'' | Some t \<Rightarrow> t)]
             @ (case map_of p ''description'' of None \<Rightarrow> [] | Some d \<Rightarrow> [(''desc'', d)])
             @ (case map_of p ''enum'' of None \<Rightarrow> [] | Some en \<Rightarrow> [(''enum'', en)])
             @ (case map_of p ''default'' of None \<Rightarrow> [] | Some df \<Rightarrow> [(''default'', df)])
             @ (if JStr name \<in> set required then [(''required'', JBool True)] else [])))
      | _ \<Rightarrow> Inl AttributeError)"

text \<open>The loop over \<^verbatim>\<open>props.items()\<close>; \<^verbatim>\<open>params[name] = param\<close> replaces an entry in
  place or appends a new one.\<close>

fun convert_loop ::
  "json list \<Rightarrow> (string \<times> json) list \<Rightarrow> (string \<times> json) list \<Rightarrow> (string \<times> json) list res" where
  "convert_loop required [] params = Inr params"
| "convert_loop required ((name, prop) # rest) params =
     (case make_param required name prop of
        Inl e \<Rightarrow> Inl e
      | Inr param \<Rightarrow> convert_loop required rest (AList.update name param params))"

definition convert_schema_to_yaml_params :: "json \<Rightarrow> json res" where
  "convert_schema_to_yaml_params input_schema =
     (case py_get input_schema ''properties'' (JObj []) of
        Inl e \<Rightarrow> Inl e
      | Inr props \<Rightarrow>
          (case py_get input_schema ''required'' (JArr []) of
             Inl e \<Rightarrow> Inl e
           | Inr req \<Rightarrow>
               (case py_set req of
                  Inl e \<Rightarrow> Inl e
                | Inr required \<Rightarrow>
                    (case py_items props of
                       Inl e \<Rightarrow> Inl e
                     | Inr items \<Rightarrow>
                         (case convert_loop required items [] of
                            Inl e \<Rightarrow> Inl e
                          | Inr params \<Rightarrow> Inr (JObj params))))))"

text \<open>The schema of the example: two properties, the first one required.\<close>

definition example_schema :: json where
  "example_schema =
     JObj [(''properties'',
              JObj [(''a'', JObj [(''type'', JStr ''string'')]),
                    (''b'', JObj [(''type'', JStr ''integer''), (''default'', JInt 5)])]),
           (''required'', JArr [JStr ''a''])]"

text \<open>A schema whose \<open>required\<close> list names a parameter it has no property for.\<close>

definition ghost_schema :: json where
  "ghost_schema =
     JObj [(''properties'', JObj [(''a'', JObj [(''type'', JStr ''string'')])]),
           (''required'', JArr [JStr ''a'', JStr ''ghost''])]"

section \<open>The session client (class MCPClient of both scripts)\<close>

text \<open>
  What lies outside the scripts is a parameter of the model: the network behind
  \<^verbatim>\<open>urllib.request\<close> (it answers the whole sequence of requests made so far, the last
  one being the current request, with a response or with the exception that building
  or opening the request raises; any run of any server is such a function, since a
  run meets each sequence once), the standard library's JSON parser and printer,
  PyYAML when it is installed, Python's \<^verbatim>\<open>str()\<close> on a decoded value and on an
  exception, and the text of \<^verbatim>\<open>mcp-config.json\<close> beside the script (\<open>None\<close> when the
  file is missing). The headers of a response are the dict the script makes of them.
\<close>

record request =
  req_url :: json
  req_data :: json
  req_headers :: "string \<rightharpoonup> string"
  req_method :: string

record response =
  resp_headers :: "string \<rightharpoonup> string"
  resp_body :: string

record env =
  urlopen :: "request list \<Rightarrow> py_error + response"
  json_loads :: "string \<Rightarrow> json option"
  json_dumps :: "json \<Rightarrow> string"
  yaml_dump :: "json \<Rightarrow> string"
  HAS_YAML :: bool
  py_str :: "json \<Rightarrow> string"
  exc_str :: "py_error \<Rightarrow> string"
  config_file :: "string option"

text \<open>
  The effects of a run: the requests made, oldest first, the files written (path to
  content) and the lines printed on standard output.
\<close>

record world =
  sent :: "request list"
  files :: "string \<rightharpoonup> string"
  stdout :: "string list"

record mcp_client =
  base_url :: json
  session_id :: "string option"

definition MCPClient :: "json \<Rightarrow> mcp_client" where
  "MCPClient url = \<lparr>base_url = url, session_id = None\<rparr>"

text \<open>\<^verbatim>\<open>not self.session_id\<close> is true for \<^verbatim>\<open>None\<close> and for the empty string.\<close>

definition sid_truthy :: "string option \<Rightarrow> bool" where
  "sid_truthy sid = (case sid of None \<Rightarrow> False | Some s \<Rightarrow> s \<noteq> [])"

text \<open>An f-string field \<^verbatim>\<open>{v}\<close>: a string stands for itself, any other value is
  printed by \<^verbatim>\<open>str()\<close>.\<close>

definition py_format :: "env \<Rightarrow> json \<Rightarrow> string" where
  "py_format env v = (case v of JStr s \<Rightarrow> s | _ \<Rightarrow> py_str env v)"

text \<open>
  The request \<^verbatim>\<open>_post\<close> builds. Updating the headers with an empty dict changes
  nothing, so the test \<^verbatim>\<open>if headers\<close> only separates \<^verbatim>\<open>None\<close>.
\<close>

definition build_request :: "mcp_client \<Rightarrow> json \<Rightarrow> (string \<rightharpoonup> string) option \<Rightarrow> request" where
  "build_request self data headers =
     (let req_headers0 = [''Content-Type'' \<mapsto> ''application/json''];
          req_headers1 = (case headers of None \<Rightarrow> req_headers0 | Some h \<Rightarrow> req_headers0 ++ h)
      in \<lparr>req_url = base_url self, req_data = data,
          req_headers = req_headers1, req_method = ''POST''\<rparr>)"

text \<open>
  \<^verbatim>\<open>_post\<close>. The request is recorded as made before the network answers it. A body
  that is no JSON text makes \<^verbatim>\<open>json.loads\<close> raise.
\<close>

definition post ::
  "env \<Rightarrow> mcp_client \<Rightarrow> json \<Rightarrow> (string \<rightharpoonup> string) option \<Rightarrow> request list
     \<Rightarrow> (json \<times> (string \<rightharpoonup> string)) res \<times> request list" where
  "post env self data headers net =
     (let request = build_request self data headers;
          net' = net @ [request]
      in case urlopen env net' of
           Inl e \<Rightarrow> (Inl e, net')
         | Inr response \<Rightarrow>
             (case json_loads env (resp_body response) of
                None \<Rightarrow> (Inl JSONDecodeError, net')
              | Some body \<Rightarrow> (Inr (body, resp_headers response), net')))"

text \<open>The two scripts' \<^verbatim>\<open>initialize\<close> differ in the client name they announce only.\<close>

definition initialize_data :: "string \<Rightarrow> json" where
  "initialize_data client_name =
     JObj [(''jsonrpc'', JStr ''2.0''),
           (''id'', JInt 1),
           (''method'', JStr ''initialize''),
           (''params'',
              JObj [(''protocolVersion'', JStr ''2024-11-05''),
                    (''capabilities'', JObj []),
                    (''clientInfo'',
                       JObj [(''name'', JStr client_name), (''version'', JStr ''1.0.0'')])])]"

definition initialize ::
  "string \<Rightarrow> env \<Rightarrow> mcp_client \<Rightarrow> request list \<Rightarrow> json res \<times> mcp_client \<times> request list" where
  "initialize client_name env self net =
     (case post env self (initialize_data client_name) None net of
        (Inl e, net') \<Rightarrow> (Inl e, self, net')
      | (Inr (body, headers), net') \<Rightarrow>
          (let self' = self\<lparr>session_id := headers ''Mcp-Session-Id''\<rparr>
           in if \<not> sid_truthy (session_id self')
              then (Inl (PyException ''No session ID in response''), self', net')
              else (Inr body, self', net')))"

subsection \<open>executor.py\<close>

definition tools_call_data :: "string \<Rightarrow> json \<Rightarrow> json" where
  "tools_call_data tool_name params =
     JObj [(''jsonrpc'', JStr ''2.0''),
           (''id'', JInt 2),
           (''method'', JStr ''tools/call''),
           (''params'', JObj [(''name'', JStr tool_name), (''arguments'', params)])]"

text \<open>The header dict \<^verbatim>\<open>{"Mcp-Session-Id": self.session_id}\<close>: the session id is a
  non-empty string whenever this is reached.\<close>

definition session_header :: "mcp_client \<Rightarrow> (string \<rightharpoonup> string)" where
  "session_header self = Map.empty(''Mcp-Session-Id'' := session_id self)"

definition call_tool ::
  "env \<Rightarrow> mcp_client \<Rightarrow> string \<Rightarrow> json \<Rightarrow> request list
     \<Rightarrow> json res \<times> mcp_client \<times> request list" where
  "call_tool env self tool_name params net =
     (case (if \<not> sid_truthy (session_id self)
            then initialize ''mcp-executor'' env self net
            else (Inr JNull, self, net)) of
        (Inl e, self', net') \<Rightarrow> (Inl e, self', net')
      | (Inr _, self', net') \<Rightarrow>
          (case post env self' (tools_call_data tool_name params)
                     (Some (session_header self')) net' of
             (Inl e, net'') \<Rightarrow> (Inl e, self', net'')
           | (Inr (body, _), net'') \<Rightarrow> (Inr body, self', net'')))"

subsection \<open>refresh\_tool\_docs.py\<close>

definition tools_list_data :: json where
  "tools_list_data =
     JObj [(''jsonrpc'', JStr ''2.0''),
           (''id'', JInt 2),
           (''method'', JStr ''tools/list''),
           (''params'', JObj [])]"

definition list_tools ::
  "env \<Rightarrow> mcp_client \<Rightarrow> request list \<Rightarrow> json res \<times> mcp_client \<times> request list" where
  "list_tools env self net =
     (case (if \<not> sid_truthy (session_id self)
            then initialize ''refresh-tool-docs'' env self net
            else (Inr JNull, self, net)) of
        (Inl e, self', net') \<Rightarrow> (Inl e, self', net')
      | (Inr _, self', net') \<Rightarrow>
          (case post env self' tools_list_data (Some (session_header self')) net' of
             (Inl e, net'') \<Rightarrow> (Inl e, self', net'')
           | (Inr (body, _), net'') \<Rightarrow>
               (case py_contains ''error'' body of
                  Inl e \<Rightarrow> (Inl e, self', net'')
                | Inr True \<Rightarrow>
                    (case py_getitem body ''error'' of
                       Inl e \<Rightarrow> (Inl e, self', net'')
                     | Inr err \<Rightarrow>
                         (Inl (PyException (''MCP error: '' @ py_format env err)), self', net''))
                | Inr False \<Rightarrow>
                    (case py_get body ''result'' (JObj []) of
                       Inl e \<Rightarrow> (Inl e, self', net'')
                     | Inr result \<Rightarrow>
                         (case py_get result ''tools'' (JArr []) of
                            Inl e \<Rightarrow> (Inl e, self', net'')
                          | Inr tools \<Rightarrow> (Inr tools, self', net''))))))"

definition fetch_tools :: "env \<Rightarrow> json \<Rightarrow> request list \<Rightarrow> json res \<times> request list" where
  "fetch_tools env mcp_url net =
     (case list_tools env (MCPClient mcp_url) net of (r, self', net') \<Rightarrow> (r, net'))"

section \<open>refresh\_tool\_docs.py: rendering and the main loop\<close>

text \<open>\<^verbatim>\<open>str.rstrip()\<close> removes trailing white space (here: the ASCII white space
  characters).\<close>

definition is_space :: "char \<Rightarrow> bool" where
  "is_space c = (let n = (of_char c :: nat) in (9 \<le> n \<and> n \<le> 13) \<or> (28 \<le> n \<and> n \<le> 32))"

definition rstrip :: "string \<Rightarrow> string" where
  "rstrip s = rev (dropWhile is_space (rev s))"

text \<open>\<^verbatim>\<open>sep.join(lines)\<close> on strings.\<close>

fun str_join :: "string \<Rightarrow> string list \<Rightarrow> string" where
  "str_join sep [] = []"
| "str_join sep [x] = x"
| "str_join sep (x # y # ys) = x @ sep @ str_join sep (y # ys)"

text \<open>The list \<^verbatim>\<open>lines\<close> can hold any decoded value, since a tool's description is
  appended as it came; \<^verbatim>\<open>join\<close> raises unless every item is a string.\<close>

fun the_strings :: "json list \<Rightarrow> string list option" where
  "the_strings [] = Some []"
| "the_strings (JStr s # xs) = (case the_strings xs of None \<Rightarrow> None | Some ss \<Rightarrow> Some (s # ss))"
| "the_strings (_ # xs) = None"

definition py_join :: "string \<Rightarrow> json list \<Rightarrow> string res" where
  "py_join sep lines =
     (case the_strings lines of None \<Rightarrow> Inl TypeError | Some ss \<Rightarrow> Inr (str_join sep ss))"

text \<open>\<^verbatim>\<open>output_dir / name\<close> for a plain file name.\<close>

definition path_join :: "string \<Rightarrow> string \<Rightarrow> string" where
  "path_join dir name = dir @ ''/'' @ name"

text \<open>The parameter block of a tool whose schema has properties.\<close>

definition params_block :: "env \<Rightarrow> json \<Rightarrow> json list res" where
  "params_block env input_schema =
     (if HAS_YAML env
      then (case convert_schema_to_yaml_params input_schema of
              Inl e \<Rightarrow> Inl e
            | Inr params \<Rightarrow>
                Inr [JStr ''**Params:**'', JStr ''```yaml'',
                     JStr (rstrip (yaml_dump env params)), JStr ''```'', JStr []])
      else Inr [JStr ''**Params:**'', JStr ''```json'',
                JStr (json_dumps env input_schema), JStr ''```'', JStr []])"

text \<open>The lines one pass of the loop of \<^verbatim>\<open>write_tools_md\<close> appends for \<open>tool\<close>.\<close>

definition tool_lines :: "env \<Rightarrow> json \<Rightarrow> json list res" where
  "tool_lines env tool =
     (case py_getitem tool ''name'' of
        Inl e \<Rightarrow> Inl e
      | Inr name \<Rightarrow>
          (case py_get tool ''description'' JNull of
             Inl e \<Rightarrow> Inl e
           | Inr description \<Rightarrow>
               (case py_get tool ''inputSchema'' (JObj []) of
                  Inl e \<Rightarrow> Inl e
                | Inr input_schema \<Rightarrow>
                    (case py_get input_schema ''properties'' JNull of
                       Inl e \<Rightarrow> Inl e
                     | Inr props \<Rightarrow>
                         (case (if truthy props then params_block env input_schema
                                else Inr []) of
                            Inl e \<Rightarrow> Inl e
                          | Inr block \<Rightarrow>
                              Inr ([JStr (''## '' @ py_format env name), JStr []]
                                   @ (if truthy description then [description, JStr []] else [])
                                   @ block))))))"

fun tools_loop :: "env \<Rightarrow> json list \<Rightarrow> json list \<Rightarrow> json list res" where
  "tools_loop env [] lines = Inr lines"
| "tools_loop env (tool # rest) lines =
     (case tool_lines env tool of
        Inl e \<Rightarrow> Inl e
      | Inr ls \<Rightarrow> tools_loop env rest (lines @ ls))"

text \<open>\<^verbatim>\<open>write_tools_md\<close>: nothing is written or printed unless the whole text was built.
  Writing the file replaces what the path held; the write itself is taken to succeed.\<close>

definition write_tools_md :: "env \<Rightarrow> string \<Rightarrow> json \<Rightarrow> string \<Rightarrow> world \<Rightarrow> world res" where
  "write_tools_md env mcp_name tools output_dir w =
     (case py_iter tools of
        Inl e \<Rightarrow> Inl e
      | Inr ts \<Rightarrow>
          (case tools_loop env ts [JStr (''# '' @ mcp_name @ '' Tools''), JStr []] of
             Inl e \<Rightarrow> Inl e
           | Inr lines \<Rightarrow>
               (let output_path = path_join output_dir (mcp_name @ ''.md'')
                in case py_join [CHR 0x0A] lines of
                     Inl e \<Rightarrow> Inl e
                   | Inr text \<Rightarrow>
                       Inr (w\<lparr>files := (files w)(output_path \<mapsto> text),
                              stdout := stdout w @ [''Updated: '' @ output_path]\<rparr>))))"

text \<open>\<^verbatim>\<open>load_config\<close> of both scripts.\<close>

definition load_config :: "env \<Rightarrow> json res" where
  "load_config env =
     (case config_file env of
        None \<Rightarrow> Inl FileNotFoundError
      | Some txt \<Rightarrow> (case json_loads env txt of None \<Rightarrow> Inl JSONDecodeError | Some c \<Rightarrow> Inr c))"

text \<open>The line the handler \<^verbatim>\<open>except Exception as e\<close> prints.\<close>

definition error_line :: "env \<Rightarrow> string \<Rightarrow> py_error \<Rightarrow> string" where
  "error_line env mcp_name e =
     ''Error fetching tools for '' @ mcp_name @ '': '' @
       (case e of PyException msg \<Rightarrow> msg | _ \<Rightarrow> exc_str env e)"

text \<open>One pass of the main loop: the body of the \<^verbatim>\<open>try\<close> and its handler.\<close>

definition refresh_server :: "env \<Rightarrow> string \<Rightarrow> string \<times> json \<Rightarrow> world \<Rightarrow> world" where
  "refresh_server env tools_dir item w =
     (case item of (mcp_name, server) \<Rightarrow>
        (case py_getitem server ''url'' of
           Inl e \<Rightarrow> w\<lparr>stdout := stdout w @ [error_line env mcp_name e]\<rparr>
         | Inr url \<Rightarrow>
             (case fetch_tools env url (sent w) of
                (Inl e, net') \<Rightarrow>
                  w\<lparr>sent := net', stdout := stdout w @ [error_line env mcp_name e]\<rparr>
              | (Inr tools, net') \<Rightarrow>
                  (case write_tools_md env mcp_name tools tools_dir (w\<lparr>sent := net'\<rparr>) of
                     Inl e \<Rightarrow>
                       w\<lparr>sent := net', stdout := stdout w @ [error_line env mcp_name e]\<rparr>
                   | Inr w' \<Rightarrow> w'))))"


text \<open>How a script ends: it runs to its end or calls \<^verbatim>\<open>sys.exit(n)\<close>, or an exception
  reaches the top level, where the interpreter prints the traceback on standard error
  and exits with code 1.\<close>

datatype status = Exit nat | Uncaught py_error

fun exit_code :: "status \<Rightarrow> nat" where
  "exit_code (Exit n) = n"
| "exit_code (Uncaught e) = 1"


section \<open>executor.py: the main block\<close>

text \<open>\<open>argv\<close> is \<^verbatim>\<open>sys.argv\<close>: the script's name, then its arguments. The first line of
  the module's docstring stands for the usage text.\<close>

definition executor_doc :: string where
  "executor_doc = ''MCP Tool Executor - Zero-token execution script''"

definition executor_main :: "env \<Rightarrow> string list \<Rightarrow> world \<Rightarrow> status \<times> world" where
  "executor_main env argv w =
     (if length argv \<noteq> 4
      then (Exit 1, w\<lparr>stdout := stdout w @ [executor_doc]\<rparr>)
      else
        (let mcp_name = argv ! 1; tool_name = argv ! 2
         in case json_loads env (argv ! 3) of
              None \<Rightarrow> (Uncaught JSONDecodeError, w)
            | Some params \<Rightarrow>
                (case load_config env of
                   Inl e \<Rightarrow> (Uncaught e, w)
                 | Inr config \<Rightarrow>
                     (case py_getitem config ''mcpServers'' of
                        Inl e \<Rightarrow> (Uncaught e, w)
                      | Inr servers \<Rightarrow>
                          (case py_getitem servers mcp_name of
                             Inl e \<Rightarrow> (Uncaught e, w)
                           | Inr server \<Rightarrow>
                               (case py_getitem server ''url'' of
                                  Inl e \<Rightarrow> (Uncaught e, w)
                                | Inr mcp_url \<Rightarrow>
                                    (case call_tool env (MCPClient mcp_url) tool_name params
                                                    (sent w) of
                                       (Inl e, client, net') \<Rightarrow> (Uncaught e, w\<lparr>sent := net'\<rparr>)
                                     | (Inr result, client, net') \<Rightarrow>
                                         (Exit 0, w\<lparr>sent := net',
                                                    stdout := stdout w @ [json_dumps env result]\<rparr>))))))))"

section \<open>Notions used to state the properties\<close>

text \<open>The JSON-RPC method a request names.\<close>

definition rpc_method :: "request \<Rightarrow> json option" where
  "rpc_method q = (case req_data q of JObj kvs \<Rightarrow> map_of kvs ''method'' | _ \<Rightarrow> None)"

definition is_initialize :: "request \<Rightarrow> bool" where
  "is_initialize q = (rpc_method q = Some (JStr ''initialize'') \<and>
                      req_headers q ''Mcp-Session-Id'' = None)"

text \<open>A request for method \<open>m\<close> that carries the session id \<open>sid\<close>, a non-empty string,
  as its \<^verbatim>\<open>Mcp-Session-Id\<close> header.\<close>

definition rpc_with_session :: "string \<Rightarrow> string option \<Rightarrow> request \<Rightarrow> bool" where
  "rpc_with_session m sid q =
     (rpc_method q = Some (JStr m) \<and> sid_truthy sid \<and> req_headers q ''Mcp-Session-Id'' = sid)"

text \<open>
  What one operation of the client may add to the requests sent: with a session id
  held, the one request of the operation, carrying that id, and the client is left as
  it was; without one, the initialize request first, followed, if at all, by the
  request of the operation carrying the id the client holds then.
\<close>

definition session_discipline ::
  "string \<Rightarrow> mcp_client \<Rightarrow> request list \<Rightarrow> mcp_client \<Rightarrow> request list \<Rightarrow> bool" where
  "session_discipline m self net self' net' =
     (if sid_truthy (session_id self)
      then self' = self \<and> (\<exists>q. net' = net @ [q] \<and> rpc_with_session m (session_id self) q)
      else (\<exists>q0. is_initialize q0 \<and>
              (net' = net @ [q0] \<or>
               (\<exists>q. net' = net @ [q0, q] \<and> rpc_with_session m (session_id self') q))))"

text \<open>The properties of a schema and the members of its \<open>required\<close> list, as
  \<^verbatim>\<open>convert_schema_to_yaml_params\<close> reads them.\<close>

definition schema_properties :: "json \<Rightarrow> (string \<times> json) list" where
  "schema_properties schema =
     (case py_get schema ''properties'' (JObj []) of Inr (JObj kvs) \<Rightarrow> kvs | _ \<Rightarrow> [])"

definition schema_required :: "json \<Rightarrow> json list" where
  "schema_required schema =
     (case py_get schema ''required'' (JArr []) of
        Inr req \<Rightarrow> (case py_set req of Inr xs \<Rightarrow> xs | Inl e \<Rightarrow> [])
      | Inl e \<Rightarrow> [])"






section \<open>A stub environment for concrete runs\<close>

text \<open>
  A parser that knows the texts the stub servers send and nothing else, and servers
  told apart by their URL: \<open>http://up\<close> hands out the session id \<open>s-1\<close>, lists two tools and answers a
  tool call with an error object; \<open>http://down\<close> answers every request with HTTP
  status 500; \<open>http://nosid\<close> sends the session header with an empty value;
  \<open>http://bare\<close> answers the listing with an empty object; \<open>http://err\<close> answers the
  listing with an error object; \<open>http://text\<close> answers the handshake with a body that
  is no JSON text.
\<close>

definition echo_tool :: json where
  "echo_tool =
     JObj [(''name'', JStr ''echo''), (''description'', JStr ''Echo the text''),
           (''inputSchema'', example_schema)]"

definition ping_tool :: json where
  "ping_tool = JObj [(''name'', JStr ''ping'')]"

definition stub_tools :: "json list" where
  "stub_tools = [echo_tool, ping_tool]"

definition stub_error_body :: json where
  "stub_error_body = JObj [(''error'', JObj [(''code'', JInt (-32601))])]"

definition stub_config :: json where
  "stub_config =
     JObj [(''mcpServers'',
              JObj [(''down'', JObj [(''url'', JStr ''http://down'')]),
                    (''up'', JObj [(''url'', JStr ''http://up'')])])]"

text \<open>The bodies the stub servers send and the configuration file, as JSON texts.\<close>

definition init_text :: string where
  \<open>init_text = ''{"result": {}}''\<close>

definition tools_text :: string where
  \<open>tools_text =
     ''{"result": {"tools": [{"name": "echo", "description": "Echo the text", '' @
     ''"inputSchema": {"properties": {"a": {"type": "string"}, '' @
     ''"b": {"type": "integer", "default": 5}}, "required": ["a"]}}, {"name": "ping"}]}}''\<close>

definition error_text :: string where
  \<open>error_text = ''{"error": {"code": -32601}}''\<close>

definition config_text :: string where
  \<open>config_text =
     ''{"mcpServers": {"down": {"url": "http://down"}, "up": {"url": "http://up"}}}''\<close>

definition stub_loads :: "string \<Rightarrow> json option" where
  "stub_loads txt =
     map_of [(''{}'', JObj []),
             (init_text, JObj [(''result'', JObj [])]),
             (tools_text, JObj [(''result'', JObj [(''tools'', JArr stub_tools)])]),
             (error_text, stub_error_body),
             (config_text, stub_config)] txt"

definition nosid_response :: response where
  "nosid_response = \<lparr>resp_headers = [''Mcp-Session-Id'' \<mapsto> []], resp_body = init_text\<rparr>"

definition text_response :: response where
  "text_response = \<lparr>resp_headers = [''Mcp-Session-Id'' \<mapsto> ''s-1''], resp_body = ''<html>''\<rparr>"

definition stub_urlopen :: "request list \<Rightarrow> py_error + response" where
  "stub_urlopen net =
     (let q = last net in
      if req_url q = JStr ''http://down'' then Inl (HTTPError 500)
      else if rpc_method q = Some (JStr ''initialize'') then
        (if req_url q = JStr ''http://nosid''
         then Inr nosid_response
         else if req_url q = JStr ''http://text''
         then Inr text_response
         else Inr \<lparr>resp_headers = [''Mcp-Session-Id'' \<mapsto> ''s-1''], resp_body = init_text\<rparr>)
      else if rpc_method q = Some (JStr ''tools/list'') then
        (if req_url q = JStr ''http://bare''
         then Inr \<lparr>resp_headers = Map.empty, resp_body = ''{}''\<rparr>
         else if req_url q = JStr ''http://err''
         then Inr \<lparr>resp_headers = Map.empty, resp_body = error_text\<rparr>
         else Inr \<lparr>resp_headers = Map.empty, resp_body = tools_text\<rparr>)
      else Inr \<lparr>resp_headers = Map.empty, resp_body = error_text\<rparr>)"

definition stub_exc_str :: "py_error \<Rightarrow> string" where
  "stub_exc_str e =
     (case e of HTTPError n \<Rightarrow> ''HTTP Error'' | KeyError k \<Rightarrow> k | _ \<Rightarrow> ''error'')"

definition stub_env :: env where
  "stub_env =
     \<lparr>urlopen = stub_urlopen, json_loads = stub_loads,
      json_dumps = (\<lambda>v. ''<json>''), yaml_dump = (\<lambda>v. ''<yaml>''), HAS_YAML = True,
      py_str = (\<lambda>v. ''<value>''), exc_str = stub_exc_str, config_file = Some config_text\<rparr>"

definition up_client :: mcp_client where
  "up_client = \<lparr>base_url = JStr ''http://up'', session_id = Some ''s-1''\<rparr>"

definition err_client :: mcp_client where
  "err_client = \<lparr>base_url = JStr ''http://err'', session_id = Some ''s-1''\<rparr>"



definition stub_world :: world where
  "stub_world = \<lparr>sent = [], files = Map.empty, stdout = []\<rparr>"

section \<open>Schema conversion: the example\<close>

text \<open>
  C7. For the schema with properties \<open>a\<close> (a string) and \<open>b\<close> (an integer with default
  5) and the required list \<open>[a]\<close>, the conversion returns a record with exactly the two
  entries: \<open>a\<close> carries the required flag \<open>True\<close>, \<open>b\<close> carries no required key and
  the default 5.
\<close>

theorem convert_example:
  "convert_schema_to_yaml_params example_schema =
     Inr (JObj [(''a'', JObj [(''type'', JStr ''string''), (''required'', JBool True)]),
                (''b'', JObj [(''type'', JStr ''integer''), (''default'', JInt 5)])])"
  by (simp add: convert_schema_to_yaml_params_def example_schema_def py_set_def make_param_def)

section \<open>The session client: requests sent and results\<close>

lemma post_cases:
  "post env c d h net =
     (case urlopen env (net @ [build_request c d h]) of
        Inl e \<Rightarrow> (Inl e, net @ [build_request c d h])
      | Inr resp \<Rightarrow>
          (case json_loads env (resp_body resp) of
             None \<Rightarrow> (Inl JSONDecodeError, net @ [build_request c d h])
           | Some body \<Rightarrow> (Inr (body, resp_headers resp), net @ [build_request c d h])))"
  by (simp add: post_def Let_def)

lemma snd_post: "snd (post env c d h net) = net @ [build_request c d h]"
  by (simp add: post_cases split: sum.splits option.splits)

lemma build_request_simps [simp]:
  "req_data (build_request c d h) = d"
  "req_url (build_request c d h) = base_url c"
  "req_method (build_request c d h) = ''POST''"
  by (simp_all add: build_request_def Let_def)

lemma build_request_session_header:
  "req_headers (build_request c d (Some (session_header c))) ''Mcp-Session-Id'' = session_id c"
  by (cases "session_id c") (simp_all add: build_request_def Let_def session_header_def map_add_def)

lemma build_request_no_header:
  "req_headers (build_request c d None) ''Mcp-Session-Id'' = None"
  by (simp add: build_request_def Let_def)

lemma rpc_method_build [simp]:
  "rpc_method (build_request c (initialize_data nm) h) = Some (JStr ''initialize'')"
  "rpc_method (build_request c (tools_call_data t p) h) = Some (JStr ''tools/call'')"
  "rpc_method (build_request c tools_list_data h) = Some (JStr ''tools/list'')"
  by (simp_all add: rpc_method_def initialize_data_def tools_call_data_def tools_list_data_def)

lemma initialize_sent:
  "initialize nm env c net = (r, c', net') \<Longrightarrow> net' = net @ [build_request c (initialize_data nm) None]"
  by (auto simp: initialize_def post_cases Let_def split: sum.splits option.splits if_splits)

lemma initialize_ok_truthy:
  "initialize nm env c net = (Inr b, c', net') \<Longrightarrow> sid_truthy (session_id c') \<and> base_url c' = base_url c"
  by (auto simp: initialize_def post_cases Let_def split: sum.splits option.splits if_splits)




lemma call_tool_fresh:
  assumes "\<not> sid_truthy (session_id c)" and "call_tool env c t p net = (r, c', net')"
  shows "(net' = net @ [build_request c (initialize_data ''mcp-executor'') None] \<and> isl r)
       \<or> (net' = net @ [build_request c (initialize_data ''mcp-executor'') None,
                         build_request c' (tools_call_data t p) (Some (session_header c'))]
           \<and> sid_truthy (session_id c'))"
proof (cases "initialize ''mcp-executor'' env c net")
  case (fields r0 c0 net0)
  note sent0 = initialize_sent [OF fields]
  show ?thesis
  proof (cases r0)
    case (Inl e)
    with assms fields sent0 show ?thesis by (auto simp: call_tool_def)
  next
    case (Inr b)
    with fields have "sid_truthy (session_id c0)" using initialize_ok_truthy by blast
    with assms fields sent0 Inr show ?thesis
      by (auto simp: call_tool_def post_cases split: sum.splits option.splits)
  qed
qed

lemma call_tool_initialized:
  assumes "sid_truthy (session_id c)" and "call_tool env c t p net = (r, c', net')"
  shows "c' = c \<and> net' = net @ [build_request c (tools_call_data t p) (Some (session_header c))]"
  using assms by (auto simp: call_tool_def post_cases split: sum.splits option.splits)

lemma call_tool_ok_truthy:
  assumes "call_tool env c t p net = (Inr b, c', net')"
  shows "sid_truthy (session_id c')"
proof (cases "sid_truthy (session_id c)")
  case True
  with call_tool_initialized [OF True assms] show ?thesis by simp
next
  case False
  from call_tool_fresh [OF False assms] show ?thesis by auto
qed

lemma list_tools_fresh:
  assumes "\<not> sid_truthy (session_id c)" and "list_tools env c net = (r, c', net')"
  shows "(net' = net @ [build_request c (initialize_data ''refresh-tool-docs'') None] \<and> isl r)
       \<or> (net' = net @ [build_request c (initialize_data ''refresh-tool-docs'') None,
                         build_request c' tools_list_data (Some (session_header c'))]
           \<and> sid_truthy (session_id c'))"
proof (cases "initialize ''refresh-tool-docs'' env c net")
  case (fields r0 c0 net0)
  note sent0 = initialize_sent [OF fields]
  show ?thesis
  proof (cases r0)
    case (Inl e)
    with assms fields sent0 show ?thesis by (auto simp: list_tools_def)
  next
    case (Inr b)
    with fields have "sid_truthy (session_id c0)" using initialize_ok_truthy by blast
    with assms fields sent0 Inr show ?thesis
      by (auto simp: list_tools_def post_cases split: sum.splits option.splits bool.splits)
  qed
qed

lemma list_tools_initialized:
  assumes "sid_truthy (session_id c)" and "list_tools env c net = (r, c', net')"
  shows "c' = c \<and> net' = net @ [build_request c tools_list_data (Some (session_header c))]"
  using assms
  by (auto simp: list_tools_def post_cases split: sum.splits option.splits bool.splits)

lemma is_initialize_build [simp]: "is_initialize (build_request c (initialize_data nm) None)"
  by (simp add: is_initialize_def build_request_no_header)

lemma rpc_with_session_call:
  "sid_truthy (session_id c) \<Longrightarrow>
   rpc_with_session ''tools/call'' (session_id c)
     (build_request c (tools_call_data t p) (Some (session_header c)))"
  by (simp add: rpc_with_session_def build_request_session_header)

lemma rpc_with_session_list:
  "sid_truthy (session_id c) \<Longrightarrow>
   rpc_with_session ''tools/list'' (session_id c)
     (build_request c tools_list_data (Some (session_header c)))"
  by (simp add: rpc_with_session_def build_request_session_header)

lemma call_tool_discipline:
  assumes "call_tool env c t p net = (r, c', net')"
  shows "session_discipline ''tools/call'' c net c' net'"
proof (cases "sid_truthy (session_id c)")
  case True
  from call_tool_initialized [OF True assms] rpc_with_session_call [OF True]
  show ?thesis using True by (auto simp: session_discipline_def)
next
  case False
  from call_tool_fresh [OF False assms] show ?thesis
  proof
    assume "net' = net @ [build_request c (initialize_data ''mcp-executor'') None] \<and> isl r"
    with False show ?thesis
      unfolding session_discipline_def using is_initialize_build by auto
  next
    assume a: "net' = net @ [build_request c (initialize_data ''mcp-executor'') None,
                   build_request c' (tools_call_data t p) (Some (session_header c'))]
             \<and> sid_truthy (session_id c')"
    then have "rpc_with_session ''tools/call'' (session_id c')
                 (build_request c' (tools_call_data t p) (Some (session_header c')))"
      by (simp add: rpc_with_session_call)
    with a False show ?thesis
      unfolding session_discipline_def using is_initialize_build by auto
  qed
qed

lemma list_tools_ok_truthy:
  assumes "list_tools env c net = (Inr b, c', net')"
  shows "sid_truthy (session_id c')"
proof (cases "sid_truthy (session_id c)")
  case True
  with list_tools_initialized [OF True assms] show ?thesis by simp
next
  case False
  from list_tools_fresh [OF False assms] show ?thesis by auto
qed

lemma list_tools_discipline:
  assumes "list_tools env c net = (r, c', net')"
  shows "session_discipline ''tools/list'' c net c' net'"
proof (cases "sid_truthy (session_id c)")
  case True
  from list_tools_initialized [OF True assms] rpc_with_session_list [OF True]
  show ?thesis using True by (auto simp: session_discipline_def)
next
  case False
  from list_tools_fresh [OF False assms] show ?thesis
  proof
    assume "net' = net @ [build_request c (initialize_data ''refresh-tool-docs'') None] \<and> isl r"
    with False show ?thesis
      unfolding session_discipline_def using is_initialize_build by auto
  next
    assume a: "net' = net @ [build_request c (initialize_data ''refresh-tool-docs'') None,
                   build_request c' tools_list_data (Some (session_header c'))]
             \<and> sid_truthy (session_id c')"
    then have "rpc_with_session ''tools/list'' (session_id c')
                 (build_request c' tools_list_data (Some (session_header c')))"
      by (simp add: rpc_with_session_list)
    with a False show ?thesis
      unfolding session_discipline_def using is_initialize_build by auto
  qed
qed

lemma initialize_last:
  assumes "initialize nm env c net = (r, c', net')"
  shows "rpc_method (last net') = Some (JStr ''initialize'')"
  using initialize_sent [OF assms] by simp


text \<open>After a successful handshake the operation goes on as on an initialized client.\<close>

lemma list_tools_after_initialize:
  assumes "\<not> sid_truthy (session_id c)"
    and "initialize ''refresh-tool-docs'' env c net = (Inr b, c0, net0)"
  shows "list_tools env c net = list_tools env c0 net0"
  using assms initialize_ok_truthy [OF assms(2)] by (simp add: list_tools_def)

lemma list_tools_initialize_failed:
  assumes "\<not> sid_truthy (session_id c)"
    and "initialize ''refresh-tool-docs'' env c net = (Inl e, c0, net0)"
  shows "list_tools env c net = (Inl e, c0, net0)"
  using assms by (simp add: list_tools_def)

lemma call_tool_after_initialize:
  assumes "\<not> sid_truthy (session_id c)"
    and "initialize ''mcp-executor'' env c net = (Inr b, c0, net0)"
  shows "call_tool env c t p net = call_tool env c0 t p net0"
  using assms initialize_ok_truthy [OF assms(2)] by (simp add: call_tool_def)

lemma call_tool_initialize_failed:
  assumes "\<not> sid_truthy (session_id c)"
    and "initialize ''mcp-executor'' env c net = (Inl e, c0, net0)"
  shows "call_tool env c t p net = (Inl e, c0, net0)"
  using assms by (simp add: call_tool_def)

lemma list_tools_initialized_result:
  assumes "sid_truthy (session_id c)" and "list_tools env c net = (r, c', net')"
    and "urlopen env net' = Inr resp"
  shows "r = (case json_loads env (resp_body resp) of
                None \<Rightarrow> Inl JSONDecodeError
              | Some body \<Rightarrow>
              (case py_contains ''error'' body of
                Inl e \<Rightarrow> Inl e
              | Inr True \<Rightarrow>
                  (case py_getitem body ''error'' of
                     Inl e \<Rightarrow> Inl e
                   | Inr err \<Rightarrow> Inl (PyException (''MCP error: '' @ py_format env err)))
              | Inr False \<Rightarrow>
                  (case py_get body ''result'' (JObj []) of
                     Inl e \<Rightarrow> Inl e
                   | Inr result \<Rightarrow> py_get result ''tools'' (JArr []))))"
  using list_tools_initialized [OF assms(1,2)] assms
  by (auto simp: list_tools_def post_cases split: sum.splits bool.splits option.splits)

lemma call_tool_initialized_result:
  assumes "sid_truthy (session_id c)" and "call_tool env c t p net = (r, c', net')"
    and "urlopen env net' = Inr resp"
  shows "r = (case json_loads env (resp_body resp) of
                None \<Rightarrow> Inl JSONDecodeError
              | Some body \<Rightarrow> Inr body)"
  using call_tool_initialized [OF assms(1,2)] assms
  by (auto simp: call_tool_def post_cases split: sum.splits option.splits)

lemma list_tools_rpc_result:
  assumes "list_tools env c net = (r, c', net')"
    and "rpc_method (last net') = Some (JStr ''tools/list'')"
    and "urlopen env net' = Inr resp"
  shows "r = (case json_loads env (resp_body resp) of
                None \<Rightarrow> Inl JSONDecodeError
              | Some body \<Rightarrow>
              (case py_contains ''error'' body of
                Inl e \<Rightarrow> Inl e
              | Inr True \<Rightarrow>
                  (case py_getitem body ''error'' of
                     Inl e \<Rightarrow> Inl e
                   | Inr err \<Rightarrow> Inl (PyException (''MCP error: '' @ py_format env err)))
              | Inr False \<Rightarrow>
                  (case py_get body ''result'' (JObj []) of
                     Inl e \<Rightarrow> Inl e
                   | Inr result \<Rightarrow> py_get result ''tools'' (JArr []))))"
proof (cases "sid_truthy (session_id c)")
  case True
  from list_tools_initialized_result [OF True assms(1,3)] show ?thesis .
next
  case False
  obtain r0 c0 net0 where init: "initialize ''refresh-tool-docs'' env c net = (r0, c0, net0)"
    by (cases "initialize ''refresh-tool-docs'' env c net")
  show ?thesis
  proof (cases r0)
    case (Inl e)
    with list_tools_initialize_failed [OF False] init assms(1) have "net' = net0" by simp
    with initialize_last [OF init] assms(2) show ?thesis by simp
  next
    case (Inr b)
    with init have init': "initialize ''refresh-tool-docs'' env c net = (Inr b, c0, net0)" by simp
    from list_tools_after_initialize [OF False init'] assms(1)
    have "list_tools env c0 net0 = (r, c', net')" by simp
    from list_tools_initialized_result [OF _ this assms(3)] initialize_ok_truthy [OF init']
    show ?thesis by simp
  qed
qed

lemma call_tool_rpc_result:
  assumes "call_tool env c t p net = (r, c', net')"
    and "rpc_method (last net') = Some (JStr ''tools/call'')"
    and "urlopen env net' = Inr resp"
  shows "r = (case json_loads env (resp_body resp) of
                None \<Rightarrow> Inl JSONDecodeError
              | Some body \<Rightarrow> Inr body)"
proof (cases "sid_truthy (session_id c)")
  case True
  from call_tool_initialized_result [OF True assms(1,3)] show ?thesis .
next
  case False
  obtain r0 c0 net0 where init: "initialize ''mcp-executor'' env c net = (r0, c0, net0)"
    by (cases "initialize ''mcp-executor'' env c net")
  show ?thesis
  proof (cases r0)
    case (Inl e)
    with call_tool_initialize_failed [OF False] init assms(1) have "net' = net0" by simp
    with initialize_last [OF init] assms(2) show ?thesis by simp
  next
    case (Inr b)
    with init have init': "initialize ''mcp-executor'' env c net = (Inr b, c0, net0)" by simp
    from call_tool_after_initialize [OF False init'] assms(1)
    have "call_tool env c0 t p net0 = (r, c', net')" by simp
    from call_tool_initialized_result [OF _ this assms(3)] initialize_ok_truthy [OF init']
    show ?thesis by simp
  qed
qed



section \<open>Concrete runs against the stub servers\<close>

lemmas stub_texts = init_text_def tools_text_def error_text_def config_text_def

lemmas stub_simps =
  stub_env_def stub_urlopen_def stub_loads_def stub_texts rpc_method_def build_request_def
  initialize_data_def tools_call_data_def tools_list_data_def MCPClient_def session_header_def
  sid_truthy_def Let_def nosid_response_def text_response_def

lemma stub_call_tool:
  "call_tool stub_env (MCPClient (JStr ''http://up'')) ''echo'' (JObj []) [] =
     (Inr stub_error_body, up_client,
      [build_request (MCPClient (JStr ''http://up'')) (initialize_data ''mcp-executor'') None,
       build_request up_client (tools_call_data ''echo'' (JObj [])) (Some (session_header up_client))])"
  by (simp add: call_tool_def initialize_def post_def stub_simps up_client_def)

lemma stub_list_tools:
  "list_tools stub_env (MCPClient (JStr ''http://up'')) [] =
     (Inr (JArr stub_tools), up_client,
      [build_request (MCPClient (JStr ''http://up'')) (initialize_data ''refresh-tool-docs'') None,
       build_request up_client tools_list_data (Some (session_header up_client))])"
  by (simp add: list_tools_def initialize_def post_def stub_simps up_client_def)

lemma stub_list_err:
  "list_tools stub_env (MCPClient (JStr ''http://err'')) [] =
     (Inl (PyException ''MCP error: <value>''), err_client,
      [build_request (MCPClient (JStr ''http://err'')) (initialize_data ''refresh-tool-docs'') None,
       build_request err_client tools_list_data (Some (session_header err_client))])"
  by (simp add: list_tools_def initialize_def post_def stub_simps err_client_def
      stub_error_body_def py_format_def)

section \<open>The session handshake\<close>

text \<open>
  C1. No request other than initialize is sent while the client holds no session id.
  \<^verbatim>\<open>call_tool\<close> and \<^verbatim>\<open>list_tools\<close> on a client without a session id send the
  initialize request first, and whatever follows carries the id the client then holds,
  a non-empty string. On a client that holds a session id they send the one request
  of the operation, with that id as its \<^verbatim>\<open>Mcp-Session-Id\<close> header, and leave the client
  unchanged; so a second call, after a first one that returned, sends no initialize
  request again.
\<close>

theorem session_before_rpc:
  assumes "call_tool env c t p net = (r1, c1, net1)"
    and "list_tools env c net = (r2, c2, net2)"
  shows "session_discipline ''tools/call'' c net c1 net1
       \<and> session_discipline ''tools/list'' c net c2 net2
       \<and> (\<forall>b. r1 = Inr b \<longrightarrow> sid_truthy (session_id c1) \<and>
            (\<forall>t' p'. \<exists>q. call_tool env c1 t' p' net1 = (fst (call_tool env c1 t' p' net1), c1, net1 @ [q])
                      \<and> rpc_with_session ''tools/call'' (session_id c1) q))
       \<and> (\<forall>b. r2 = Inr b \<longrightarrow> sid_truthy (session_id c2) \<and>
            (\<exists>q. list_tools env c2 net2 = (fst (list_tools env c2 net2), c2, net2 @ [q])
                      \<and> rpc_with_session ''tools/list'' (session_id c2) q))"
proof (intro conjI allI impI)
  show "session_discipline ''tools/call'' c net c1 net1"
    using assms(1) by (rule call_tool_discipline)
  show "session_discipline ''tools/list'' c net c2 net2"
    using assms(2) by (rule list_tools_discipline)
next
  fix b assume "r1 = Inr b"
  with assms(1) show "sid_truthy (session_id c1)" using call_tool_ok_truthy by blast
next
  fix b t' p' assume "r1 = Inr b"
  with assms(1) have tr: "sid_truthy (session_id c1)" using call_tool_ok_truthy by blast
  obtain r' c' net' where second: "call_tool env c1 t' p' net1 = (r', c', net')"
    by (cases "call_tool env c1 t' p' net1")
  from call_tool_initialized [OF tr second] rpc_with_session_call [OF tr] second
  show "\<exists>q. call_tool env c1 t' p' net1 = (fst (call_tool env c1 t' p' net1), c1, net1 @ [q])
          \<and> rpc_with_session ''tools/call'' (session_id c1) q"
    by auto
next
  fix b assume "r2 = Inr b"
  with assms(2) show "sid_truthy (session_id c2)" using list_tools_ok_truthy by blast
next
  fix b assume "r2 = Inr b"
  with assms(2) have tr: "sid_truthy (session_id c2)" using list_tools_ok_truthy by blast
  obtain r' c' net' where second: "list_tools env c2 net2 = (r', c', net')"
    by (cases "list_tools env c2 net2")
  from list_tools_initialized [OF tr second] rpc_with_session_list [OF tr] second
  show "\<exists>q. list_tools env c2 net2 = (fst (list_tools env c2 net2), c2, net2 @ [q])
          \<and> rpc_with_session ''tools/list'' (session_id c2) q"
    by auto
qed

theorem session_before_rpc_witness:
  "session_discipline ''tools/call'' (MCPClient (JStr ''http://up'')) [] up_client
     [build_request (MCPClient (JStr ''http://up'')) (initialize_data ''mcp-executor'') None,
      build_request up_client (tools_call_data ''echo'' (JObj [])) (Some (session_header up_client))]
   \<and> session_id up_client = Some ''s-1''
   \<and> \<not> sid_truthy (session_id (MCPClient (JStr ''http://up'')))
   \<and> sid_truthy (session_id up_client)"
  using session_before_rpc [OF stub_call_tool stub_list_tools]
  by (simp add: up_client_def MCPClient_def sid_truthy_def)




section \<open>An error field in the response body\<close>

text \<open>
  C3. When the body answering the request of the operation is an object with an
  \<open>error\<close> key, \<^verbatim>\<open>list_tools\<close> raises \<^verbatim>\<open>MCP error: ...\<close> with the error value, and
  \<^verbatim>\<open>call_tool\<close> returns the decoded body as it is, the error included.
\<close>

theorem error_field_policy:
  "(list_tools env c net = (r, c', net') \<and>
    rpc_method (last net') = Some (JStr ''tools/list'') \<and>
    urlopen env net' = Inr resp \<and>
    json_loads env (resp_body resp) = Some (JObj kvs) \<and>
    map_of kvs ''error'' = Some err
    \<longrightarrow> r = Inl (PyException (''MCP error: '' @ py_format env err)))
 \<and> (call_tool env c t p net = (r, c', net') \<and>
    rpc_method (last net') = Some (JStr ''tools/call'') \<and>
    urlopen env net' = Inr resp \<and>
    json_loads env (resp_body resp) = Some (JObj kvs) \<and>
    map_of kvs ''error'' = Some err
    \<longrightarrow> r = Inr (JObj kvs))"
proof (intro conjI impI)
  assume a: "list_tools env c net = (r, c', net') \<and>
    rpc_method (last net') = Some (JStr ''tools/list'') \<and>
    urlopen env net' = Inr resp \<and>
    json_loads env (resp_body resp) = Some (JObj kvs) \<and>
    map_of kvs ''error'' = Some err"
  then have "list_tools env c net = (r, c', net')"
    and "rpc_method (last net') = Some (JStr ''tools/list'')"
    and "urlopen env net' = Inr resp" by simp_all
  from list_tools_rpc_result [OF this] a
  show "r = Inl (PyException (''MCP error: '' @ py_format env err))" by simp
next
  assume a: "call_tool env c t p net = (r, c', net') \<and>
    rpc_method (last net') = Some (JStr ''tools/call'') \<and>
    urlopen env net' = Inr resp \<and>
    json_loads env (resp_body resp) = Some (JObj kvs) \<and>
    map_of kvs ''error'' = Some err"
  then have "call_tool env c t p net = (r, c', net')"
    and "rpc_method (last net') = Some (JStr ''tools/call'')"
    and "urlopen env net' = Inr resp" by simp_all
  from call_tool_rpc_result [OF this] a
  show "r = Inr (JObj kvs)" by simp
qed

theorem error_field_policy_witness:
  "fst (list_tools stub_env (MCPClient (JStr ''http://err'')) []) =
     Inl (PyException ''MCP error: <value>'')
   \<and> fst (call_tool stub_env (MCPClient (JStr ''http://up'')) ''echo'' (JObj []) []) =
     Inr (JObj [(''error'', JObj [(''code'', JInt (-32601))])])"
proof -
  let ?resp = "\<lparr>resp_headers = Map.empty, resp_body = error_text\<rparr>"
  let ?kvs = "[(''error'', JObj [(''code'', JInt (-32601))])]"
  let ?err = "JObj [(''code'', JInt (-32601))]"
  let ?netl = "[build_request (MCPClient (JStr ''http://err'')) (initialize_data ''refresh-tool-docs'') None,
       build_request err_client tools_list_data (Some (session_header err_client))]"
  let ?netc = "[build_request (MCPClient (JStr ''http://up'')) (initialize_data ''mcp-executor'') None,
       build_request up_client (tools_call_data ''echo'' (JObj [])) (Some (session_header up_client))]"
  have l: "rpc_method (last ?netl) = Some (JStr ''tools/list'')"
    "urlopen stub_env ?netl = Inr ?resp"
    "rpc_method (last ?netc) = Some (JStr ''tools/call'')"
    "urlopen stub_env ?netc = Inr ?resp"
    "json_loads stub_env (resp_body ?resp) = Some (JObj ?kvs)"
    "map_of ?kvs ''error'' = Some ?err"
    by (simp_all add: stub_simps err_client_def up_client_def stub_error_body_def)
  have v: "py_format stub_env ?err = ''<value>''"
    by (simp add: py_format_def stub_env_def)
  from error_field_policy [of stub_env "MCPClient (JStr ''http://err'')" "[]"
      "Inl (PyException ''MCP error: <value>'')" err_client ?netl ?resp ?kvs ?err]
    stub_list_err l v
  have 1: "fst (list_tools stub_env (MCPClient (JStr ''http://err'')) []) =
     Inl (PyException ''MCP error: <value>'')" by simp
  from error_field_policy [of stub_env "MCPClient (JStr ''http://up'')" "[]"
      "Inr stub_error_body" up_client ?netc ?resp ?kvs ?err "''echo''" "JObj []"]
    stub_call_tool l
  have 2: "fst (call_tool stub_env (MCPClient (JStr ''http://up'')) ''echo'' (JObj []) []) =
     Inr (JObj ?kvs)" by (simp add: stub_error_body_def)
  from 1 2 show ?thesis by simp
qed

section \<open>Responses that are not the expected envelope\<close>


lemma listing_of_object:
  assumes "map_of kvs ''error'' = None"
  shows "(case py_contains ''error'' (JObj kvs) of
                Inl e \<Rightarrow> Inl e
              | Inr True \<Rightarrow>
                  (case py_getitem (JObj kvs) ''error'' of
                     Inl e \<Rightarrow> Inl e
                   | Inr err \<Rightarrow> Inl (PyException (''MCP error: '' @ py_format env err)))
              | Inr False \<Rightarrow>
                  (case py_get (JObj kvs) ''result'' (JObj []) of
                     Inl e \<Rightarrow> Inl e
                   | Inr result \<Rightarrow> py_get result ''tools'' (JArr [])))
         = (case map_of kvs ''result'' of
              None \<Rightarrow> Inr (JArr [])
            | Some result \<Rightarrow> py_get result ''tools'' (JArr []))"
  using assms by (simp split: option.splits)





section \<open>The tool invoker's command line\<close>

text \<open>A run of the invoker against the stub server that goes through: two requests,
  and the decoded body printed.\<close>

lemma executor_run_example:
  "executor_main stub_env [''executor.py'', ''up'', ''echo'', ''{}''] stub_world =
     (Exit 0,
      \<lparr>sent = [build_request (MCPClient (JStr ''http://up'')) (initialize_data ''mcp-executor'') None,
               build_request up_client (tools_call_data ''echo'' (JObj [])) (Some (session_header up_client))],
       files = Map.empty, stdout = [''<json>'']\<rparr>)"
proof -
  have "json_loads stub_env ''{}'' = Some (JObj [])" "load_config stub_env = Inr stub_config"
    by (simp_all add: load_config_def stub_env_def stub_loads_def stub_texts)
  moreover have "json_dumps stub_env stub_error_body = ''<json>''" by (simp add: stub_env_def)
  ultimately show ?thesis
    by (simp add: executor_main_def stub_config_def stub_call_tool stub_world_def)
qed

text \<open>
  C8. With three arguments, a configuration that loads and holds a server mapping, and
  a server name that is not a key of the mapping, the invoker ends with a non-zero exit
  code, hands no request to \<^verbatim>\<open>urlopen\<close>, prints and writes nothing; when its JSON
  argument parses, it ends by the uncaught \<^verbatim>\<open>KeyError\<close> naming the server, which is
  the script's configuration error.
\<close>

theorem executor_unknown_server:
  assumes "length argv = 4"
    and "load_config env = Inr config"
    and "py_getitem config ''mcpServers'' = Inr (JObj servers)"
    and "map_of servers (argv ! 1) = None"
  shows "exit_code (fst (executor_main env argv w)) \<noteq> 0
       \<and> snd (executor_main env argv w) = w
       \<and> (\<forall>params. json_loads env (argv ! 3) = Some params \<longrightarrow>
            fst (executor_main env argv w) = Uncaught (KeyError (argv ! 1)))"
  using assms by (simp add: executor_main_def split: option.splits)

theorem executor_unknown_server_witness:
  "executor_main stub_env [''executor.py'', ''nosuch'', ''echo'', ''{}''] stub_world =
     (Uncaught (KeyError ''nosuch''), stub_world)
   \<and> sent stub_world = []"
proof -
  let ?argv = "[''executor.py'', ''nosuch'', ''echo'', ''{}'']"
  have a: "length ?argv = 4" by simp
  have b: "load_config stub_env = Inr stub_config"
    by (simp add: load_config_def stub_env_def stub_loads_def stub_texts)
  have c: "py_getitem stub_config ''mcpServers'' =
             Inr (JObj [(''down'', JObj [(''url'', JStr ''http://down'')]),
                        (''up'', JObj [(''url'', JStr ''http://up'')])])"
    by (simp add: stub_config_def)
  have d: "map_of [(''down'', JObj [(''url'', JStr ''http://down'')]),
                   (''up'', JObj [(''url'', JStr ''http://up'')])] (?argv ! 1) = None"
    by simp
  have e: "json_loads stub_env (?argv ! 3) = Some (JObj [])"
    by (simp add: stub_env_def stub_loads_def stub_texts)
  from executor_unknown_server [OF a b c d, of stub_world] e
  have "fst (executor_main stub_env ?argv stub_world) = Uncaught (KeyError ''nosuch'')"
    and "snd (executor_main stub_env ?argv stub_world) = stub_world"
    by simp_all
  then show ?thesis by (simp add: prod_eq_iff stub_world_def)
qed



section \<open>Schema conversion: names and required flags\<close>

lemma make_param_required:
  assumes "make_param required name prop = Inr param"
  shows "\<exists>kvs. param = JObj kvs \<and>
           map_of kvs ''required'' =
             (if JStr name \<in> set required then Some (JBool True) else None)"
  using assms by (auto simp: make_param_def split: json.splits option.splits)

lemma py_items_Inr: "py_items x = Inr kvs \<Longrightarrow> x = JObj kvs"
  by (cases x) simp_all

lemma set_update_subset: "set (AList.update k v al) \<subseteq> insert (k, v) (set al)"
  by (induction al) auto

lemma convert_loop_names:
  "convert_loop required items params = Inr ps \<Longrightarrow>
   fst ` set ps = fst ` set params \<union> fst ` set items"
proof (induction items arbitrary: params)
  case Nil
  then show ?case by simp
next
  case (Cons item items)
  obtain name pr where item: "item = (name, pr)" by (cases item)
  from Cons.prems item obtain pm where
    mk: "make_param required name pr = Inr pm" and
    rest: "convert_loop required items (AList.update name pm params) = Inr ps"
    by (auto split: sum.splits)
  from Cons.IH [OF rest] item show ?case by (auto simp: dom_update)
qed

lemma convert_loop_entries:
  "convert_loop required items params = Inr ps \<Longrightarrow> (n, p) \<in> set ps \<Longrightarrow>
   (n, p) \<in> set params \<or> (\<exists>prop. (n, prop) \<in> set items \<and> make_param required n prop = Inr p)"
proof (induction items arbitrary: params)
  case Nil
  then show ?case by simp
next
  case (Cons item items)
  obtain name pr where item: "item = (name, pr)" by (cases item)
  from Cons.prems item obtain pm where
    mk: "make_param required name pr = Inr pm" and
    rest: "convert_loop required items (AList.update name pm params) = Inr ps"
    by (auto split: sum.splits)
  from Cons.IH [OF rest Cons.prems(2)]
  show ?case
  proof
    assume "(n, p) \<in> set (AList.update name pm params)"
    with set_update_subset have "(n, p) = (name, pm) \<or> (n, p) \<in> set params" by fastforce
    with mk item show ?thesis by auto
  next
    assume "\<exists>prop. (n, prop) \<in> set items \<and> make_param required n prop = Inr p"
    then show ?thesis by auto
  qed
qed

text \<open>
  C10. Whenever the conversion returns, the names of the parameter record are exactly
  the keys of the schema's \<open>properties\<close>: a name that is no key of \<open>properties\<close> has no
  entry, also when the \<open>required\<close> list names it; and an entry carries the required
  flag, with value \<open>True\<close>, exactly when its name is in the \<open>required\<close> list.
\<close>

theorem params_follow_properties:
  assumes "convert_schema_to_yaml_params schema = Inr params"
  shows "\<exists>ps. params = JObj ps
           \<and> fst ` set ps = fst ` set (schema_properties schema)
           \<and> (\<forall>n. n \<notin> fst ` set (schema_properties schema) \<longrightarrow> map_of ps n = None)
           \<and> (\<forall>n p. (n, p) \<in> set ps \<longrightarrow>
                (\<exists>kvs. p = JObj kvs \<and>
                   map_of kvs ''required'' =
                     (if JStr n \<in> set (schema_required schema) then Some (JBool True) else None)))"
proof -
  from assms obtain s where schema: "schema = JObj s"
    by (cases schema) (simp_all add: convert_schema_to_yaml_params_def)
  from assms schema obtain props required ps where
    props: "py_get schema ''properties'' (JObj []) = Inr (JObj props)" and
    req: "schema_required schema = required" and
    loop: "convert_loop required props [] = Inr ps" and
    params: "params = JObj ps"
    by (auto simp: convert_schema_to_yaml_params_def schema_required_def
        split: sum.splits option.splits dest!: py_items_Inr)
  from props have sp: "schema_properties schema = props" by (simp add: schema_properties_def)
  from convert_loop_names [OF loop] have names: "fst ` set ps = fst ` set props" by simp
  have absent: "map_of ps n = None" if "n \<notin> fst ` set props" for n
    using that names by (simp add: map_of_eq_None_iff)
  have flag: "\<exists>kvs. p = JObj kvs \<and>
                map_of kvs ''required'' = (if JStr n \<in> set required then Some (JBool True) else None)"
    if "(n, p) \<in> set ps" for n p
  proof -
    from convert_loop_entries [OF loop that] obtain pr where
      "make_param required n pr = Inr p" by auto
    then show ?thesis by (rule make_param_required)
  qed
  from params names absent flag sp req show ?thesis by auto
qed

theorem params_follow_properties_witness:
  "convert_schema_to_yaml_params ghost_schema =
     Inr (JObj [(''a'', JObj [(''type'', JStr ''string''), (''required'', JBool True)])])
   \<and> fst ` set [(''a'', JObj [(''type'', JStr ''string''), (''required'', JBool True)])]
       = fst ` set (schema_properties ghost_schema)
   \<and> JStr ''ghost'' \<in> set (schema_required ghost_schema)
   \<and> map_of [(''a'', JObj [(''type'', JStr ''string''), (''required'', JBool True)])] ''ghost'' = None"
proof -
  have run: "convert_schema_to_yaml_params ghost_schema =
     Inr (JObj [(''a'', JObj [(''type'', JStr ''string''), (''required'', JBool True)])])"
    by (simp add: convert_schema_to_yaml_params_def ghost_schema_def py_set_def make_param_def)
  have req: "JStr ''ghost'' \<in> set (schema_required ghost_schema)"
    by (simp add: schema_required_def ghost_schema_def py_set_def)
  have props: "''ghost'' \<notin> fst ` set (schema_properties ghost_schema)"
    by (simp add: schema_properties_def ghost_schema_def)
  from params_follow_properties [OF run] props req show ?thesis
    using run by auto
qed

section \<open>Rendering the tools of one server\<close>












text \<open>A tool without a name stops the rendering, and nothing is written.\<close>

lemma write_tools_md_nameless:
  "write_tools_md env mcp_name (JArr (JObj [] # ts)) output_dir w = Inl (KeyError ''name'')"
  by (simp add: write_tools_md_def tool_lines_def)

section \<open>The refresher's loop over the servers\<close>



lemma refresh_server_no_url:
  assumes "py_getitem server ''url'' = Inl e"
  shows "refresh_server env dir (mcp_name, server) w =
           w\<lparr>stdout := stdout w @ [error_line env mcp_name e]\<rparr>"
  using assms by (simp add: refresh_server_def)










subsection \<open>The refresher against the stub servers\<close>







section \<open>One documentation file per listed server\<close>



section \<open>A failing server does not stop the refresher\<close>



end
